theory Spec2Isabelle
  imports Main
begin

section \<open>The console logger of prizm (src/prizm/console.py)\<close>

text \<open>
  The class \<^verbatim>\<open>Console\<close> prints messages to the terminal and appends plain-text
  copies to a log file. Its methods are embedded as functions over an explicit world
  (the text written to standard output so far and the contents of the files), with the
  object's attributes as a record. A leading underscore of a Python name is written
  \<open>u_\<close>: \<^verbatim>\<open>_write\<close> is \<open>u_write\<close>, \<^verbatim>\<open>_color_switch\<close> is \<open>u_color_switch\<close>,
  the attribute \<^verbatim>\<open>_log\<close> is \<open>u_log\<close>.
\<close>

subsection \<open>Python values and their string form\<close>

text \<open>
  The message arguments are arbitrary Python values, rendered with \<^verbatim>\<open>str\<close>. The
  values modelled are strings, (unbounded) integers, booleans and \<^verbatim>\<open>None\<close>.
\<close>

datatype pyval = PStr string | PInt int | PBool bool | PNone

fun digit_char :: "nat \<Rightarrow> char" where
  "digit_char n = ''0123456789'' ! n"

fun str_nat :: "nat \<Rightarrow> string" where
  "str_nat n = (if n < 10 then [digit_char n] else str_nat (n div 10) @ [digit_char (n mod 10)])"

declare str_nat.simps [simp del]

definition str_int :: "int \<Rightarrow> string" where
  "str_int i = (if i < 0 then CHR ''-'' # str_nat (nat (- i)) else str_nat (nat i))"

fun py_str :: "pyval \<Rightarrow> string" where
  "py_str (PStr s) = s"
| "py_str (PInt i) = str_int i"
| "py_str (PBool b) = (if b then ''True'' else ''False'')"
| "py_str PNone = ''None''"

text \<open>\<^verbatim>\<open>sep.join(xs)\<close>\<close>

fun join :: "string \<Rightarrow> string list \<Rightarrow> string" where
  "join sep [] = []"
| "join sep [x] = x"
| "join sep (x # y # ys) = x @ sep @ join sep (y # ys)"

definition newline :: string where
  "newline = [CHR 0x0A]"

definition esc :: string where
  "esc = [CHR 0x1B]"

subsection \<open>The object, the world and the collaborators\<close>

text \<open>
  The attributes set by \<^verbatim>\<open>__init__\<close>. The attribute \<^verbatim>\<open>path\<close> is tested against
  \<^verbatim>\<open>None\<close> before every write, so it is an option here. \<^verbatim>\<open>terminal\<close> is documented as a
  \<^verbatim>\<open>bool\<close>, so the test \<^verbatim>\<open>self.terminal is True\<close> is the value of the attribute.
\<close>

record console =
  directory :: string
  terminal :: bool
  u_log :: bool
  path :: "string option"
  labels :: "string list"

text \<open>
  The world: the text written to standard output, and the contents of the regular files
  (a file that does not exist has no entry; opening it in append mode creates it).
\<close>

record world =
  stdout :: string
  files :: "string \<rightharpoonup> string"

text \<open>
  Modelled from the spec: the modules \<^verbatim>\<open>prizm.util.file\<close> and \<^verbatim>\<open>prizm.util.color\<close>
  are not part of the sources. \<^verbatim>\<open>path_exists\<close> "ensures [the path] exists (creating it
  if necessary), signaling failure if it cannot": \<open>path_exists env p\<close> says whether the call
  returns normally at \<open>p\<close>; otherwise it raises. Each colour function "writes arguments to
  the terminal in that color": \<open>color_fn env name args\<close> is the text that the function
  called \<open>name\<close> writes to standard output for \<open>args\<close>.
\<close>

record env =
  path_exists :: "string \<Rightarrow> bool"
  color_fn :: "string \<Rightarrow> pyval list \<Rightarrow> string"

datatype error = PathError

subsection \<open>The methods\<close>

text \<open>\<^verbatim>\<open>__init__(self, directory, terminal)\<close>, with the clock reading in milliseconds
  (\<^verbatim>\<open>int(time.time() * 1000)\<close>) as an argument.\<close>

definition init :: "env \<Rightarrow> string \<Rightarrow> bool \<Rightarrow> int \<Rightarrow> error + console" where
  "init e dir term timestamp =
     (if \<not> path_exists e dir then Inl PathError
      else Inr \<lparr>directory = dir, terminal = term, u_log = True,
                path = Some (dir @ str_int timestamp @ ''.log''), labels = []\<rparr>)"

text \<open>\<^verbatim>\<open>print(*args, end=e)\<close> appends the space-joined arguments and the end text to
  standard output.\<close>

definition print :: "pyval list \<Rightarrow> string \<Rightarrow> world \<Rightarrow> world" where
  "print args end_text w = w\<lparr>stdout := stdout w @ join '' '' (map py_str args) @ end_text\<rparr>"

text \<open>What reading the file at \<open>p\<close> gives; a file that does not exist yet has no text.\<close>

definition content :: "world \<Rightarrow> string \<Rightarrow> string" where
  "content w p = (case files w p of None \<Rightarrow> [] | Some old \<Rightarrow> old)"

text \<open>\<^verbatim>\<open>with open(p, "a") as f: f.write(s)\<close>\<close>

definition append_file :: "string \<Rightarrow> string \<Rightarrow> world \<Rightarrow> world" where
  "append_file p s w = w\<lparr>files := (files w)(p \<mapsto> content w p @ s)\<rparr>"

text \<open>The f-string \<^verbatim>\<open>f"./log/{self.path}"\<close> of \<^verbatim>\<open>_write\<close>\<close>

definition full_path :: "string \<Rightarrow> string" where
  "full_path sp = ''./log/'' @ sp"

definition u_write :: "env \<Rightarrow> console \<Rightarrow> pyval list \<Rightarrow> world \<Rightarrow> (error + unit) \<times> world" where
  "u_write e c args w =
     (case path c of
        None \<Rightarrow> (Inr (), w)
      | Some sp \<Rightarrow>
          let p = full_path sp in
          if \<not> path_exists e p then (Inl PathError, w)
          else (Inr (), append_file p (join '' '' (map py_str args) @ newline) w))"

definition label :: "string \<Rightarrow> console \<Rightarrow> console" where
  "label l c = c\<lparr>labels := labels c @ [l]\<rparr>"

text \<open>The loop \<^verbatim>\<open>for arg in args: print(arg, end=" ")\<close>\<close>

fun print_each :: "pyval list \<Rightarrow> world \<Rightarrow> world" where
  "print_each [] w = w"
| "print_each (a # as) w = print_each as (print [a] '' '' w)"

definition warning :: "env \<Rightarrow> console \<Rightarrow> pyval list \<Rightarrow> world \<Rightarrow> (error + unit) \<times> world" where
  "warning e c args w =
     (let w1 = print [PStr (esc @ ''[1;35mWARNING: '' @ esc @ ''[0m'')] [] w;
          w2 = print_each args w1
      in u_write e c (PStr ''WARNING:'' # args) w2)"

definition error :: "env \<Rightarrow> console \<Rightarrow> pyval list \<Rightarrow> world \<Rightarrow> (error + unit) \<times> world" where
  "error e c args w =
     (let w1 = print [PStr (esc @ ''[1;31mERROR: '' @ esc @ ''[0m'')] [] w;
          w2 = print_each args w1
      in u_write e c (PStr ''ERROR:'' # args) w2)"

definition err :: "env \<Rightarrow> console \<Rightarrow> pyval list \<Rightarrow> world \<Rightarrow> (error + unit) \<times> world" where
  "err e c args w = error e c args w"

definition warn :: "env \<Rightarrow> console \<Rightarrow> pyval list \<Rightarrow> world \<Rightarrow> (error + unit) \<times> world" where
  "warn e c args w = warning e c args w"

definition set_log :: "bool \<Rightarrow> console \<Rightarrow> console" where
  "set_log log_gate c = c\<lparr>u_log := log_gate\<rparr>"

definition u_color_switch :: "env \<Rightarrow> string option \<Rightarrow> pyval list \<Rightarrow> world \<Rightarrow> world" where
  "u_color_switch e color args w =
     (case color of
        None \<Rightarrow> print args newline w
      | Some cn \<Rightarrow>
          if cn = ''GRE'' then w\<lparr>stdout := stdout w @ color_fn e ''GRE'' args\<rparr>
          else if cn = ''RED'' then w\<lparr>stdout := stdout w @ color_fn e ''RED'' args\<rparr>
          else if cn = ''BLU'' then w\<lparr>stdout := stdout w @ color_fn e ''BLU'' args\<rparr>
          else if cn = ''YEL'' then w\<lparr>stdout := stdout w @ color_fn e ''YEL'' args\<rparr>
          else if cn = ''MAG'' then w\<lparr>stdout := stdout w @ color_fn e ''MAG'' args\<rparr>
          else if cn = ''CYA'' then w\<lparr>stdout := stdout w @ color_fn e ''CYA'' args\<rparr>
          else if cn = ''BGRE'' then w\<lparr>stdout := stdout w @ color_fn e ''BGRE'' args\<rparr>
          else if cn = ''BRED'' then w\<lparr>stdout := stdout w @ color_fn e ''BRED'' args\<rparr>
          else if cn = ''BBLU'' then w\<lparr>stdout := stdout w @ color_fn e ''BBLU'' args\<rparr>
          else if cn = ''BYEL'' then w\<lparr>stdout := stdout w @ color_fn e ''BYEL'' args\<rparr>
          else if cn = ''BMAG'' then w\<lparr>stdout := stdout w @ color_fn e ''BMAG'' args\<rparr>
          else if cn = ''BCYA'' then w\<lparr>stdout := stdout w @ color_fn e ''BCYA'' args\<rparr>
          else w)"

definition out :: "env \<Rightarrow> console \<Rightarrow> pyval list \<Rightarrow> string option \<Rightarrow> world \<Rightarrow> (error + unit) \<times> world" where
  "out e c args color w =
     (let w1 = u_color_switch e color args w
      in if path c \<noteq> None then u_write e c args w1 else (Inr (), w1))"

definition log :: "env \<Rightarrow> console \<Rightarrow> pyval list \<Rightarrow> string option \<Rightarrow> string option \<Rightarrow> world
    \<Rightarrow> (error + unit) \<times> world" where
  "log e c args color lab w =
     (case lab of
        Some l \<Rightarrow>
          if l \<in> set (labels c) then
            if terminal c then
              (let w1 = u_color_switch e color args w
               in if path c \<noteq> None then u_write e c args w1 else (Inr (), w1))
            else if path c \<noteq> None then u_write e c args w
            else (Inr (), w)
          else (Inr (), w)
      | None \<Rightarrow>
          if terminal c then
            (let w1 = u_color_switch e color args w
             in if path c \<noteq> None then u_write e c args w1 else (Inr (), w1))
          else if path c \<noteq> None then u_write e c args w
          else (Inr (), w))"

subsection \<open>Sequences of calls on one object\<close>

text \<open>
  A client of the class calls its methods one after the other on the same object; an
  exception that a call raises ends the sequence.
\<close>

datatype call =
    Label string
  | Warning "pyval list"
  | Error "pyval list"
  | Err "pyval list"
  | Warn "pyval list"
  | Out "pyval list" "string option"
  | SetLog bool
  | Log "pyval list" "string option" "string option"

fun exec :: "env \<Rightarrow> call \<Rightarrow> console \<times> world \<Rightarrow> (error + unit) \<times> console \<times> world" where
  "exec e (Label l) (c, w) = (Inr (), label l c, w)"
| "exec e (Warning args) (c, w) = (fst (warning e c args w), c, snd (warning e c args w))"
| "exec e (Error args) (c, w) = (fst (error e c args w), c, snd (error e c args w))"
| "exec e (Err args) (c, w) = (fst (err e c args w), c, snd (err e c args w))"
| "exec e (Warn args) (c, w) = (fst (warn e c args w), c, snd (warn e c args w))"
| "exec e (Out args color) (c, w) = (fst (out e c args color w), c, snd (out e c args color w))"
| "exec e (SetLog log_gate) (c, w) = (Inr (), set_log log_gate c, w)"
| "exec e (Log args color lab) (c, w) =
     (fst (log e c args color lab w), c, snd (log e c args color lab w))"

fun run :: "env \<Rightarrow> call list \<Rightarrow> console \<times> world \<Rightarrow> (error + unit) \<times> console \<times> world" where
  "run e [] s = (Inr (), s)"
| "run e (k # ks) s =
     (case exec e k s of
        (Inl x, s') \<Rightarrow> (Inl x, s')
      | (Inr u, s') \<Rightarrow> run e ks s')"

text \<open>Two calls that are the same but for the value given to \<^verbatim>\<open>set_log\<close>.\<close>

fun same_call :: "call \<Rightarrow> call \<Rightarrow> bool" where
  "same_call (SetLog a) (SetLog b) = True"
| "same_call k k' = (k = k')"

text \<open>Two objects that differ at most in the attribute \<^verbatim>\<open>_log\<close>.\<close>

definition same_but_log :: "console \<Rightarrow> console \<Rightarrow> bool" where
  "same_but_log c c' =
     (directory c = directory c' \<and> terminal c = terminal c' \<and> path c = path c'
      \<and> labels c = labels c')"

subsection \<open>Example environment and objects\<close>

text \<open>
  An environment in which every path check passes and each colour function writes its
  name, a colon, the space-joined arguments and a newline; the empty world; and the object
  that \<^verbatim>\<open>Console("./log/", True)\<close> constructs when the clock reads 1700000000000 ms.
\<close>

definition env_ok :: env where
  "env_ok = \<lparr>path_exists = (\<lambda>p. True),
             color_fn = (\<lambda>name args. name @ '':'' @ join '' '' (map py_str args) @ newline)\<rparr>"

definition world0 :: world where
  "world0 = \<lparr>stdout = [], files = Map.empty\<rparr>"

definition console0 :: console where
  "console0 = \<lparr>directory = ''./log/'', terminal = True, u_log = True,
                path = Some ''./log/1700000000000.log'', labels = []\<rparr>"

section \<open>Properties\<close>

subsection \<open>Auxiliary facts\<close>

lemma str_nat_digit: "n < 10 \<Longrightarrow> str_nat n = [digit_char n]"
  by (simp add: str_nat.simps)

lemma str_nat_step: "10 \<le> n \<Longrightarrow> str_nat n = str_nat (n div 10) @ [digit_char (n mod 10)]"
  by (subst str_nat.simps) simp

lemma join_cons: "xs \<noteq> [] \<Longrightarrow> join sep (x # xs) = x @ sep @ join sep xs"
  by (cases xs) simp_all

lemma concat_spaced:
  "strs \<noteq> [] \<Longrightarrow> concat (map (\<lambda>s. s @ sep) strs) = join sep strs @ sep"
proof (induction sep strs rule: join.induct)
  case (1 sep)
  then show ?case by simp
next
  case (2 sep x)
  show ?case by simp
next
  case (3 sep x y ys)
  have ih: "concat (map (\<lambda>s. s @ sep) (y # ys)) = join sep (y # ys) @ sep"
    using "3.IH" by blast
  have "concat (map (\<lambda>s. s @ sep) (x # y # ys)) = (x @ sep) @ concat (map (\<lambda>s. s @ sep) (y # ys))"
    by (simp only: list.map concat.simps)
  also have "\<dots> = (x @ sep) @ join sep (y # ys) @ sep"
    by (simp only: ih)
  also have "\<dots> = join sep (x # y # ys) @ sep"
    by (simp only: join.simps append_assoc)
  finally show ?case .
qed

lemma concat_spaced_str:
  assumes "args \<noteq> []"
  shows "concat (map (\<lambda>a. py_str a @ sep) args) = join sep (map py_str args) @ sep"
proof -
  have "map py_str args \<noteq> []" using assms by simp
  then have "concat (map (\<lambda>s. s @ sep) (map py_str args)) = join sep (map py_str args) @ sep"
    by (rule concat_spaced)
  then show ?thesis by (simp add: comp_def)
qed

lemma print_each_stdout:
  "stdout (print_each args w) = stdout w @ concat (map (\<lambda>a. py_str a @ '' '') args)"
  by (induction args arbitrary: w) (simp_all add: print_def)

lemma print_each_files: "files (print_each args w) = files w"
  by (induction args arbitrary: w) (simp_all add: print_def)

lemma print_each_world:
  "print_each args w = w\<lparr>stdout := stdout w @ concat (map (\<lambda>a. py_str a @ '' '') args)\<rparr>"
  by (induction args arbitrary: w) (simp_all add: print_def)

lemma color_switch_files: "files (u_color_switch e color args w) = files w"
  by (simp add: u_color_switch_def print_def split: option.split)

lemma u_write_ok:
  "path c = Some sp \<Longrightarrow> path_exists e (full_path sp) \<Longrightarrow>
   u_write e c args w = (Inr (), append_file (full_path sp) (join '' '' (map py_str args) @ newline) w)"
  by (simp add: u_write_def)

lemma full_path_differs: "full_path sp \<noteq> sp"
proof
  assume "full_path sp = sp"
  then have "length (full_path sp) = length sp" by simp
  then show False by (simp add: full_path_def)
qed

lemma content_append_file:
  "content (append_file p s w) q = (if q = p then content w p @ s else content w q)"
  by (simp add: content_def append_file_def)

lemma stdout_append_file: "stdout (append_file p s w) = stdout w"
  by (simp add: append_file_def)

lemma files_append_file:
  "files (append_file p s w) q = (if q = p then Some (content w p @ s) else files w q)"
  by (simp add: append_file_def)

lemma content_color_switch: "content (u_color_switch e color args w) p = content w p"
  by (simp add: content_def color_switch_files)

lemma out_ok:
  "path c = Some sp \<Longrightarrow> path_exists e (full_path sp) \<Longrightarrow>
   out e c args color w =
     (Inr (), append_file (full_path sp) (join '' '' (map py_str args) @ newline)
                (u_color_switch e color args w))"
  by (simp add: out_def u_write_ok)

lemma log_ok:
  "path c = Some sp \<Longrightarrow> path_exists e (full_path sp) \<Longrightarrow>
   log e c args color lab w =
     (if (case lab of None \<Rightarrow> True | Some l \<Rightarrow> l \<in> set (labels c))
      then (Inr (), append_file (full_path sp) (join '' '' (map py_str args) @ newline)
                      (if terminal c then u_color_switch e color args w else w))
      else (Inr (), w))"
  by (simp add: log_def u_write_ok split: option.split)

lemma label_funpow: "(label l ^^ n) c = c\<lparr>labels := labels c @ replicate n l\<rparr>"
proof (induction n)
  case 0
  show ?case by simp
next
  case (Suc n)
  have "(label l ^^ Suc n) c = label l ((label l ^^ n) c)" by simp
  also have "\<dots> = c\<lparr>labels := (labels c @ replicate n l) @ [l]\<rparr>"
    by (simp add: Suc.IH label_def)
  also have "(labels c @ replicate n l) @ [l] = labels c @ replicate (Suc n) l"
    by (simp add: replicate_append_same)
  finally show ?case .
qed

lemma methods_read_no_log_flag:
  assumes "same_but_log c c'"
  shows "warning e c args w = warning e c' args w"
    and "error e c args w = error e c' args w"
    and "err e c args w = err e c' args w"
    and "warn e c args w = warn e c' args w"
    and "out e c args color w = out e c' args color w"
    and "log e c args color lab w = log e c' args color lab w"
proof -
  have f: "terminal c = terminal c'" "path c = path c'" "labels c = labels c'"
    using assms by (simp_all add: same_but_log_def)
  have uw: "u_write e c a v = u_write e c' a v" for a v
    by (simp add: u_write_def f)
  show "warning e c args w = warning e c' args w"
    by (simp add: warning_def uw)
  show "error e c args w = error e c' args w"
    by (simp add: error_def uw)
  then show "err e c args w = err e c' args w"
    by (simp add: err_def)
  show "warn e c args w = warn e c' args w"
    by (simp add: warn_def warning_def uw)
  show "out e c args color w = out e c' args color w"
    by (simp add: out_def Let_def uw f)
  show "log e c args color lab w = log e c' args color lab w"
    by (auto simp add: log_def Let_def uw f split: option.split)
qed

lemma same_call_cases:
  assumes "same_call k k'"
  shows "(\<exists>a b. k = SetLog a \<and> k' = SetLog b) \<or> k' = k"
  using assms by (cases k; cases k'; simp)

lemma exec_same_but_log:
  assumes "same_call k k'" and "same_but_log c c'"
  shows "fst (exec e k (c, w)) = fst (exec e k' (c', w))
       \<and> snd (snd (exec e k (c, w))) = snd (snd (exec e k' (c', w)))
       \<and> same_but_log (fst (snd (exec e k (c, w)))) (fst (snd (exec e k' (c', w))))"
proof -
  note m = methods_read_no_log_flag [OF assms(2)]
  from same_call_cases [OF assms(1)] show ?thesis
  proof
    assume "\<exists>a b. k = SetLog a \<and> k' = SetLog b"
    then show ?thesis
      using assms(2) by (auto simp add: set_log_def same_but_log_def)
  next
    assume same: "k' = k"
    show ?thesis
    proof (cases k)
      case (Label l)
      then show ?thesis
        using same assms(2) by (simp add: label_def same_but_log_def)
    next
      case (SetLog a)
      then show ?thesis
        using same assms(2) by (simp add: set_log_def same_but_log_def)
    qed (simp_all add: same m assms(2))
  qed
qed

lemma run_same_but_log:
  assumes "list_all2 same_call ks ks'" and "same_but_log c c'"
  shows "fst (run e ks (c, w)) = fst (run e ks' (c', w))
       \<and> snd (snd (run e ks (c, w))) = snd (snd (run e ks' (c', w)))
       \<and> same_but_log (fst (snd (run e ks (c, w)))) (fst (snd (run e ks' (c', w))))"
  using assms
proof (induction ks ks' arbitrary: c c' w rule: list_all2_induct)
  case Nil
  then show ?case by simp
next
  case (Cons k ks k' ks')
  obtain r c1 w1 where x: "exec e k (c, w) = (r, c1, w1)"
    by (cases "exec e k (c, w)") auto
  obtain r' c1' w1' where x': "exec e k' (c', w) = (r', c1', w1')"
    by (cases "exec e k' (c', w)") auto
  have "r = r'" "w1 = w1'" "same_but_log c1 c1'"
    using exec_same_but_log [OF Cons.hyps(1) Cons.prems, of e w] x x' by simp_all
  then show ?case
    using Cons.IH [of c1 c1' w1] x x' by (cases r') simp_all
qed

lemma exec_frame:
  "fst (snd (exec e k (c, w))) =
     (case k of Label l \<Rightarrow> c\<lparr>labels := labels c @ [l]\<rparr> | SetLog g \<Rightarrow> c\<lparr>u_log := g\<rparr> | _ \<Rightarrow> c)"
  by (cases k) (simp_all add: label_def set_log_def)

lemma run_frame:
  "directory (fst (snd (run e ks (c, w)))) = directory c
   \<and> terminal (fst (snd (run e ks (c, w)))) = terminal c
   \<and> path (fst (snd (run e ks (c, w)))) = path c"
proof (induction ks arbitrary: c w)
  case Nil
  show ?case by simp
next
  case (Cons k ks)
  obtain r c1 w1 where x: "exec e k (c, w) = (r, c1, w1)"
    by (cases "exec e k (c, w)") auto
  have c1: "c1 = (case k of Label l \<Rightarrow> c\<lparr>labels := labels c @ [l]\<rparr>
                  | SetLog g \<Rightarrow> c\<lparr>u_log := g\<rparr> | _ \<Rightarrow> c)"
    using exec_frame [of e k c w] x by simp
  have f: "directory c1 = directory c" "terminal c1 = terminal c" "path c1 = path c"
    unfolding c1 by (cases k; simp)+
  show ?case
    using Cons.IH [of c1 w1] x f by (cases r) simp_all
qed

lemma init_example: "init env_ok ''./log/'' True 1700000000000 = Inr console0"
  by (simp add: init_def env_ok_def console0_def str_int_def str_nat_digit str_nat_step)

lemma console0_path: "path console0 = Some ''./log/1700000000000.log''"
  by (simp add: console0_def)

lemma env_ok_path: "path_exists env_ok p"
  by (simp add: env_ok_def)

lemma full_path_example:
  "full_path ''./log/1700000000000.log'' = ''./log/./log/1700000000000.log''"
  by (simp add: full_path_def)

lemma content_print: "content (print args t w) p = content w p"
  by (simp add: content_def print_def)

lemma content_print_each: "content (print_each args w) p = content w p"
  by (simp add: content_def print_each_files)

subsection \<open>The claims\<close>

text \<open>
  Claim C1. The spec has every append go to the file at \<^verbatim>\<open>path\<close>, the attribute computed
  at construction as directory + timestamp + ".log". \<^verbatim>\<open>_write\<close> opens
  \<^verbatim>\<open>f"./log/{self.path}"\<close> instead. For \<^verbatim>\<open>Console("./log/", True)\<close> constructed at
  clock reading 1700000000000, the attribute is \<^verbatim>\<open>./log/1700000000000.log\<close>; after
  \<^verbatim>\<open>warning("x")\<close>, \<^verbatim>\<open>out("x")\<close> or \<^verbatim>\<open>log("x")\<close> from the empty world no file exists at
  that path, and the record is in \<^verbatim>\<open>./log/./log/1700000000000.log\<close>.
\<close>

theorem log_file_is_not_at_path:
  "init env_ok ''./log/'' True 1700000000000 = Inr console0
   \<and> path console0 = Some ''./log/1700000000000.log''
   \<and> files (snd (warning env_ok console0 [PStr ''x''] world0)) ''./log/1700000000000.log'' = None
   \<and> files (snd (warning env_ok console0 [PStr ''x''] world0)) ''./log/./log/1700000000000.log''
        = Some (''WARNING: x'' @ newline)
   \<and> files (snd (out env_ok console0 [PStr ''x''] None world0)) ''./log/1700000000000.log'' = None
   \<and> files (snd (out env_ok console0 [PStr ''x''] None world0)) ''./log/./log/1700000000000.log''
        = Some (''x'' @ newline)
   \<and> files (snd (log env_ok console0 [PStr ''x''] None None world0)) ''./log/1700000000000.log'' = None
   \<and> files (snd (log env_ok console0 [PStr ''x''] None None world0)) ''./log/./log/1700000000000.log''
        = Some (''x'' @ newline)"
proof -
  have p: "path console0 = Some ''./log/1700000000000.log''"
    by (simp add: console0_def)
  have x: "path_exists env_ok (full_path ''./log/1700000000000.log'')"
    by (simp add: env_ok_def)
  have fp: "full_path ''./log/1700000000000.log'' = ''./log/./log/1700000000000.log''"
    by (simp add: full_path_def)
  have w: "files (snd (warning env_ok console0 [PStr ''x''] world0)) q =
             (if q = ''./log/./log/1700000000000.log'' then Some (''WARNING: x'' @ newline) else None)" for q
    by (simp add: warning_def u_write_ok [OF p x] fp files_append_file print_each_files
          content_def print_def world0_def)
  have o: "files (snd (out env_ok console0 [PStr ''x''] None world0)) q =
             (if q = ''./log/./log/1700000000000.log'' then Some (''x'' @ newline) else None)" for q
    by (simp add: out_ok [OF p x] fp files_append_file content_color_switch color_switch_files
          content_def world0_def)
  have l: "files (snd (log env_ok console0 [PStr ''x''] None None world0)) q =
             (if q = ''./log/./log/1700000000000.log'' then Some (''x'' @ newline) else None)" for q
    by (simp add: log_ok [OF p x] fp files_append_file content_color_switch color_switch_files
          content_def world0_def)
  show ?thesis
    by (simp add: init_example p w o l)
qed

text \<open>
  Claim C2. When the path check of \<^verbatim>\<open>_write\<close> passes, \<^verbatim>\<open>log(*args, color, label)\<close> follows
  the decision table: with no label, or with a label that is in \<^verbatim>\<open>labels\<close>, the
  space-joined arguments and a newline are appended to the log file, after the colour
  dispatch to the terminal exactly when \<^verbatim>\<open>terminal\<close> is true; with a label that is not in
  \<^verbatim>\<open>labels\<close> the world is unchanged: nothing is printed and nothing is appended.
\<close>

theorem log_decision_table:
  assumes "path c = Some sp" and "path_exists e (full_path sp)"
  shows "log e c args color lab w =
     (if (case lab of None \<Rightarrow> True | Some l \<Rightarrow> l \<in> set (labels c))
      then (Inr (), append_file (full_path sp) (join '' '' (map py_str args) @ newline)
                      (if terminal c then u_color_switch e color args w else w))
      else (Inr (), w))"
  using assms by (rule log_ok)

text \<open>The table at an object whose only label is \<open>A\<close>: a message labelled \<open>A\<close> is printed
  and appended, a message labelled \<open>B\<close> is dropped.\<close>

theorem log_decision_table_witness:
  "path (label ''A'' console0) = Some ''./log/1700000000000.log''
   \<and> path_exists env_ok (full_path ''./log/1700000000000.log'')
   \<and> stdout (snd (log env_ok (label ''A'' console0) [PStr ''msg''] None (Some ''A'') world0))
        = ''msg'' @ newline
   \<and> files (snd (log env_ok (label ''A'' console0) [PStr ''msg''] None (Some ''A'') world0))
        ''./log/./log/1700000000000.log'' = Some (''msg'' @ newline)
   \<and> log env_ok (label ''A'' console0) [PStr ''msg''] None (Some ''B'') world0 = (Inr (), world0)"
proof -
  have p: "path (label ''A'' console0) = Some ''./log/1700000000000.log''"
    by (simp add: label_def console0_def)
  have x: "path_exists env_ok (full_path ''./log/1700000000000.log'')"
    by (rule env_ok_path)
  have t: "terminal (label ''A'' console0)" "labels (label ''A'' console0) = [''A'']"
    by (simp_all add: label_def console0_def)
  show ?thesis
    using log_decision_table [OF p x, of "[PStr ''msg'']" None "Some ''A''" world0]
          log_decision_table [OF p x, of "[PStr ''msg'']" None "Some ''B''" world0] p x t
    by (simp add: full_path_example files_append_file stdout_append_file content_def
          u_color_switch_def print_def world0_def)
qed

text \<open>
  Claim C3, as amended. For every object (whatever \<^verbatim>\<open>terminal\<close> and \<^verbatim>\<open>_log\<close> hold) and
  all arguments, \<^verbatim>\<open>warning\<close> and \<^verbatim>\<open>error\<close> return normally when the path check passes,
  print the coloured level prefix followed, for non-empty arguments, by the space-joined
  arguments and one trailing space, and append one line to the log file: the level tag,
  a space and the space-joined arguments for non-empty arguments, and the bare tag
  \<^verbatim>\<open>WARNING:\<close> or \<^verbatim>\<open>ERROR:\<close> for no arguments, followed by a newline.
\<close>

theorem warning_error_lines:
  assumes "path c = Some sp" and "path_exists e (full_path sp)"
  shows "fst (warning e c args w) = Inr ()
       \<and> stdout (snd (warning e c args w)) =
           stdout w @ (esc @ ''[1;35mWARNING: '' @ esc @ ''[0m'')
             @ (if args = [] then [] else join '' '' (map py_str args) @ '' '')
       \<and> files (snd (warning e c args w)) =
           (files w)(full_path sp \<mapsto> content w (full_path sp)
             @ (if args = [] then ''WARNING:'' else ''WARNING: '' @ join '' '' (map py_str args))
             @ newline)
       \<and> fst (error e c args w) = Inr ()
       \<and> stdout (snd (error e c args w)) =
           stdout w @ (esc @ ''[1;31mERROR: '' @ esc @ ''[0m'')
             @ (if args = [] then [] else join '' '' (map py_str args) @ '' '')
       \<and> files (snd (error e c args w)) =
           (files w)(full_path sp \<mapsto> content w (full_path sp)
             @ (if args = [] then ''ERROR:'' else ''ERROR: '' @ join '' '' (map py_str args))
             @ newline)"
proof (cases "args = []")
  case True
  then show ?thesis
    using assms
    by (simp add: warning_def error_def u_write_ok print_def append_file_def content_def)
next
  case False
  then show ?thesis
    using assms
    by (simp add: warning_def error_def u_write_ok print_each_world concat_spaced_str
          join_cons print_def append_file_def content_def)
qed

text \<open>\<^verbatim>\<open>error("disk", "full")\<close> and \<^verbatim>\<open>warning("x", 12)\<close> on an object with both flags off.\<close>

theorem warning_error_lines_witness:
  "path (console0\<lparr>terminal := False, u_log := False\<rparr>) = Some ''./log/1700000000000.log''
   \<and> path_exists env_ok (full_path ''./log/1700000000000.log'')
   \<and> stdout (snd (error env_ok (console0\<lparr>terminal := False, u_log := False\<rparr>)
                    [PStr ''disk'', PStr ''full''] world0))
        = esc @ ''[1;31mERROR: '' @ esc @ ''[0m'' @ ''disk full ''
   \<and> files (snd (error env_ok (console0\<lparr>terminal := False, u_log := False\<rparr>)
                    [PStr ''disk'', PStr ''full''] world0)) ''./log/./log/1700000000000.log''
        = Some (''ERROR: disk full'' @ newline)
   \<and> files (snd (warning env_ok (console0\<lparr>terminal := False, u_log := False\<rparr>)
                    [PStr ''x'', PInt 12] world0)) ''./log/./log/1700000000000.log''
        = Some (''WARNING: x 12'' @ newline)"
proof -
  have p: "path (console0\<lparr>terminal := False, u_log := False\<rparr>) = Some ''./log/1700000000000.log''"
    by (simp add: console0_def)
  have x: "path_exists env_ok (full_path ''./log/1700000000000.log'')"
    by (rule env_ok_path)
  show ?thesis
    using warning_error_lines [OF p x, of "[PStr ''disk'', PStr ''full'']" world0]
          warning_error_lines [OF p x, of "[PStr ''x'', PInt 12]" world0] p x
    by (simp add: full_path_example content_def world0_def str_int_def str_nat_digit str_nat_step)
qed

text \<open>The claim as stated has the line \<^verbatim>\<open>"WARNING: " + joined(args)\<close> for every \<open>args\<close>; with no
  arguments the line is \<^verbatim>\<open>WARNING:\<close>, without the space.\<close>

theorem warning_line_counterexample:
  "files (snd (warning env_ok console0 [] world0)) (full_path ''./log/1700000000000.log'')
     = Some (''WARNING:'' @ newline)
   \<and> ''WARNING:'' @ newline \<noteq> ''WARNING: '' @ join '' '' (map py_str []) @ newline"
  by (simp add: warning_def u_write_ok [OF console0_path env_ok_path] files_append_file
        print_def content_def world0_def newline_def)

text \<open>
  Claim C4. The output does not depend on \<^verbatim>\<open>_log\<close>: two sequences of calls that
  differ only in the values given to \<^verbatim>\<open>set_log\<close>, run on objects that differ at most in
  \<^verbatim>\<open>_log\<close> from the same world, end with the same outcome and the same world (terminal
  text and file contents); and \<^verbatim>\<open>set_log\<close> itself leaves the world unchanged.
\<close>

theorem logging_flag_noninterference:
  assumes "list_all2 same_call ks ks'" and "same_but_log c c'"
  shows "fst (run e ks (c, w)) = fst (run e ks' (c', w))
       \<and> snd (snd (run e ks (c, w))) = snd (snd (run e ks' (c', w)))
       \<and> snd (snd (exec e (SetLog g) (c, w))) = w"
  using run_same_but_log [OF assms, of e w] by simp

text \<open>Two runs that set \<^verbatim>\<open>_log\<close> to different values and then log and warn.\<close>

theorem logging_flag_noninterference_witness:
  "list_all2 same_call [SetLog True, Log [PStr ''msg''] None None, Warn [PStr ''x'']]
                       [SetLog False, Log [PStr ''msg''] None None, Warn [PStr ''x'']]
   \<and> same_but_log console0 (console0\<lparr>u_log := False\<rparr>)
   \<and> fst (run env_ok [SetLog True, Log [PStr ''msg''] None None, Warn [PStr ''x'']] (console0, world0))
       = fst (run env_ok [SetLog False, Log [PStr ''msg''] None None, Warn [PStr ''x'']]
               (console0\<lparr>u_log := False\<rparr>, world0))
   \<and> snd (snd (run env_ok [SetLog True, Log [PStr ''msg''] None None, Warn [PStr ''x'']]
                 (console0, world0)))
       = snd (snd (run env_ok [SetLog False, Log [PStr ''msg''] None None, Warn [PStr ''x'']]
                     (console0\<lparr>u_log := False\<rparr>, world0)))
   \<and> u_log (fst (snd (run env_ok [SetLog True, Log [PStr ''msg''] None None, Warn [PStr ''x'']]
                        (console0, world0))))
   \<and> \<not> u_log (fst (snd (run env_ok [SetLog False, Log [PStr ''msg''] None None, Warn [PStr ''x'']]
                        (console0\<lparr>u_log := False\<rparr>, world0))))"
proof -
  have a: "list_all2 same_call [SetLog True, Log [PStr ''msg''] None None, Warn [PStr ''x'']]
                               [SetLog False, Log [PStr ''msg''] None None, Warn [PStr ''x'']]"
    by simp
  have b: "same_but_log console0 (console0\<lparr>u_log := False\<rparr>)"
    by (simp add: same_but_log_def)
  have r: "fst (run env_ok [SetLog g, Log [PStr ''msg''] None None, Warn [PStr ''x'']] (c, world0))
             = Inr ()
           \<and> u_log (fst (snd (run env_ok [SetLog g, Log [PStr ''msg''] None None, Warn [PStr ''x'']]
                  (c, world0)))) = g"
    if "path c = Some ''./log/1700000000000.log''" for g c
  proof -
    have pg: "path (c\<lparr>u_log := g\<rparr>) = Some ''./log/1700000000000.log''"
      using that by simp
    show ?thesis
      by (simp add: log_ok [OF pg env_ok_path] u_write_ok [OF pg env_ok_path] warn_def
            warning_def set_log_def)
  qed
  have q: "path (console0\<lparr>u_log := False\<rparr>) = Some ''./log/1700000000000.log''"
    by (simp add: console0_def)
  show ?thesis
    using logging_flag_noninterference [OF a b, of env_ok world0] a b r [OF console0_path] r [OF q]
    by simp
qed

text \<open>
  Claim C5. For a colour name that is none of the twelve names, the colour dispatch
  leaves the world unchanged (nothing is printed), and \<^verbatim>\<open>out\<close> with such a colour still
  appends the space-joined arguments and a newline to the log file.
\<close>

theorem unknown_color_is_silent:
  assumes "cn \<notin> {''GRE'', ''RED'', ''BLU'', ''YEL'', ''MAG'', ''CYA'',
                  ''BGRE'', ''BRED'', ''BBLU'', ''BYEL'', ''BMAG'', ''BCYA''}"
    and "path c = Some sp" and "path_exists e (full_path sp)"
  shows "u_color_switch e (Some cn) args w = w
       \<and> out e c args (Some cn) w =
           (Inr (), append_file (full_path sp) (join '' '' (map py_str args) @ newline) w)"
proof -
  have silent: "u_color_switch e (Some cn) args w = w"
    using assms(1) by (simp add: u_color_switch_def)
  show ?thesis
    using out_ok [OF assms(2,3), of args "Some cn" w] silent by simp
qed

text \<open>The colour name \<open>PURPLE\<close>.\<close>

theorem unknown_color_is_silent_witness:
  "''PURPLE'' \<notin> {''GRE'', ''RED'', ''BLU'', ''YEL'', ''MAG'', ''CYA'',
                  ''BGRE'', ''BRED'', ''BBLU'', ''BYEL'', ''BMAG'', ''BCYA''}
   \<and> path console0 = Some ''./log/1700000000000.log''
   \<and> path_exists env_ok (full_path ''./log/1700000000000.log'')
   \<and> u_color_switch env_ok (Some ''PURPLE'') [PStr ''x''] world0 = world0
   \<and> stdout (snd (out env_ok console0 [PStr ''x''] (Some ''PURPLE'') world0)) = []
   \<and> files (snd (out env_ok console0 [PStr ''x''] (Some ''PURPLE'') world0))
        ''./log/./log/1700000000000.log'' = Some (''x'' @ newline)"
proof -
  have n: "''PURPLE'' \<notin> {''GRE'', ''RED'', ''BLU'', ''YEL'', ''MAG'', ''CYA'',
                  ''BGRE'', ''BRED'', ''BBLU'', ''BYEL'', ''BMAG'', ''BCYA''}"
    by simp
  show ?thesis
    using unknown_color_is_silent [OF n console0_path env_ok_path, of "[PStr ''x'']" world0]
          n console0_path env_ok_path
    by (simp add: full_path_example files_append_file stdout_append_file content_def world0_def)
qed

text \<open>
  Claim C6. The format of a record: a call of \<^verbatim>\<open>_write\<close> whose path check passes returns
  normally and makes the log file its old text followed by exactly the space-joined
  string forms of the call's arguments and a newline, once, with nothing before them; it
  changes no other file and prints nothing. \<^verbatim>\<open>out\<close> and an unlabelled \<^verbatim>\<open>log\<close> pass their
  arguments on as they are, so their records are their own space-joined arguments;
  \<^verbatim>\<open>warning\<close> and \<^verbatim>\<open>error\<close> call \<^verbatim>\<open>_write\<close> with the level tag before their arguments.
\<close>

theorem write_record_round_trip:
  assumes "path c = Some sp" and "path_exists e (full_path sp)"
  shows "fst (u_write e c args w) = Inr ()
       \<and> content (snd (u_write e c args w)) (full_path sp) =
           content w (full_path sp) @ join '' '' (map py_str args) @ newline
       \<and> (\<forall>q. q = full_path sp \<or> files (snd (u_write e c args w)) q = files w q)
       \<and> stdout (snd (u_write e c args w)) = stdout w
       \<and> content (snd (out e c args color w)) (full_path sp) =
           content w (full_path sp) @ join '' '' (map py_str args) @ newline
       \<and> content (snd (log e c args color None w)) (full_path sp) =
           content w (full_path sp) @ join '' '' (map py_str args) @ newline
       \<and> content (snd (warning e c args w)) (full_path sp) =
           content w (full_path sp) @ join '' '' (map py_str (PStr ''WARNING:'' # args)) @ newline
       \<and> content (snd (error e c args w)) (full_path sp) =
           content w (full_path sp) @ join '' '' (map py_str (PStr ''ERROR:'' # args)) @ newline"
proof -
  have "content (snd (warning e c args w)) (full_path sp) =
          content w (full_path sp) @ join '' '' (map py_str (PStr ''WARNING:'' # args)) @ newline"
    unfolding warning_def Let_def u_write_ok [OF assms]
    by (simp only: snd_conv content_append_file refl if_True content_print_each content_print)
  moreover have "content (snd (error e c args w)) (full_path sp) =
          content w (full_path sp) @ join '' '' (map py_str (PStr ''ERROR:'' # args)) @ newline"
    unfolding error_def Let_def u_write_ok [OF assms]
    by (simp only: snd_conv content_append_file refl if_True content_print_each content_print)
  ultimately show ?thesis
    using assms
    by (simp add: u_write_ok out_ok log_ok content_append_file stdout_append_file
          files_append_file content_color_switch)
qed

text \<open>A record of four values appended to a file that holds a line already.\<close>

theorem write_record_round_trip_witness:
  "path console0 = Some ''./log/1700000000000.log''
   \<and> path_exists env_ok (full_path ''./log/1700000000000.log'')
   \<and> content (snd (u_write env_ok console0 [PStr ''disk'', PInt 12, PBool True, PNone]
        (world0\<lparr>files := [''./log/./log/1700000000000.log'' \<mapsto> ''old'' @ newline]\<rparr>)))
        ''./log/./log/1700000000000.log''
       = ''old'' @ newline @ ''disk 12 True None'' @ newline"
  using write_record_round_trip [OF console0_path env_ok_path,
          of "[PStr ''disk'', PInt 12, PBool True, PNone]"
             "world0\<lparr>files := [''./log/./log/1700000000000.log'' \<mapsto> ''old'' @ newline]\<rparr>"]
        console0_path env_ok_path
  by (simp add: full_path_example content_def world0_def str_int_def str_nat_digit str_nat_step)

text \<open>
  Claim C7. \<^verbatim>\<open>label\<close> appends unconditionally, so \<open>n\<close> registrations of \<open>l\<close> leave
  \<open>n\<close> copies of it at the end of \<^verbatim>\<open>labels\<close>. After one or more of them a call
  \<^verbatim>\<open>log(*args, color, label=l)\<close> performs one colour dispatch (when \<^verbatim>\<open>terminal\<close> is true)
  and one append, the same as after a single registration.
\<close>

theorem duplicate_labels_log_once:
  assumes "0 < n" and "path c = Some sp" and "path_exists e (full_path sp)"
  shows "labels ((label l ^^ n) c) = labels c @ replicate n l
       \<and> log e ((label l ^^ n) c) args color (Some l) w =
           (Inr (), append_file (full_path sp) (join '' '' (map py_str args) @ newline)
                      (if terminal c then u_color_switch e color args w else w))
       \<and> log e ((label l ^^ n) c) args color (Some l) w = log e (label l c) args color (Some l) w"
proof -
  have p: "path ((label l ^^ n) c) = Some sp" "path (label l c) = Some sp"
    using assms(2) by (simp_all add: label_funpow label_def)
  have m: "l \<in> set (labels ((label l ^^ n) c))"
    using assms(1) by (simp add: label_funpow)
  show ?thesis
    using log_ok [OF p(1) assms(3), of args color "Some l" w]
          log_ok [OF p(2) assms(3), of args color "Some l" w] m
    by (simp add: label_funpow label_def)
qed

text \<open>Two registrations of the label \<open>A\<close>.\<close>

theorem duplicate_labels_log_once_witness:
  "(0::nat) < 2
   \<and> path console0 = Some ''./log/1700000000000.log''
   \<and> path_exists env_ok (full_path ''./log/1700000000000.log'')
   \<and> labels ((label ''A'' ^^ 2) console0) = [''A'', ''A'']
   \<and> stdout (snd (log env_ok ((label ''A'' ^^ 2) console0) [PStr ''msg''] None (Some ''A'') world0))
       = ''msg'' @ newline
   \<and> files (snd (log env_ok ((label ''A'' ^^ 2) console0) [PStr ''msg''] None (Some ''A'') world0))
        ''./log/./log/1700000000000.log'' = Some (''msg'' @ newline)"
proof -
  have n: "(0::nat) < 2" by simp
  have t: "terminal console0" "labels console0 = []"
    by (simp_all add: console0_def)
  show ?thesis
    using duplicate_labels_log_once [OF n console0_path env_ok_path,
            of "''A''" "[PStr ''msg'']" None world0]
          console0_path env_ok_path t
    by (simp add: full_path_example files_append_file stdout_append_file content_def
          u_color_switch_def print_def world0_def numeral_2_eq_2)
qed

text \<open>
  Claim C8. \<^verbatim>\<open>out\<close> does not read \<^verbatim>\<open>terminal\<close>: whatever the attribute holds, the
  arguments go through the colour dispatch and are then appended, space-joined and
  newline-terminated, to the log file.
\<close>

theorem out_ignores_terminal_flag:
  assumes "path c = Some sp" and "path_exists e (full_path sp)"
  shows "out e (c\<lparr>terminal := t\<rparr>) args color w =
           (Inr (), append_file (full_path sp) (join '' '' (map py_str args) @ newline)
                      (u_color_switch e color args w))"
  using assms by (simp add: out_ok)

text \<open>\<^verbatim>\<open>out("x", "y", color="RED")\<close> with \<^verbatim>\<open>terminal\<close> false.\<close>

theorem out_ignores_terminal_flag_witness:
  "path console0 = Some ''./log/1700000000000.log''
   \<and> path_exists env_ok (full_path ''./log/1700000000000.log'')
   \<and> stdout (snd (out env_ok (console0\<lparr>terminal := False\<rparr>) [PStr ''x'', PStr ''y'']
                    (Some ''RED'') world0)) = ''RED:x y'' @ newline
   \<and> files (snd (out env_ok (console0\<lparr>terminal := False\<rparr>) [PStr ''x'', PStr ''y'']
                    (Some ''RED'') world0)) ''./log/./log/1700000000000.log''
       = Some (''x y'' @ newline)"
  using out_ignores_terminal_flag [OF console0_path env_ok_path,
          of False "[PStr ''x'', PStr ''y'']" "Some ''RED''" world0]
        console0_path env_ok_path
  by (simp add: full_path_example files_append_file stdout_append_file content_def
        u_color_switch_def world0_def env_ok_def)

text \<open>
  Claim C9. The frame of the methods: \<^verbatim>\<open>label(l)\<close> only appends \<open>l\<close> to \<^verbatim>\<open>labels\<close>,
  \<^verbatim>\<open>set_log(g)\<close> only assigns \<^verbatim>\<open>_log\<close>, every other method leaves the object as it is; so
  no sequence of calls changes \<^verbatim>\<open>directory\<close>, \<^verbatim>\<open>terminal\<close> or \<^verbatim>\<open>path\<close>.
\<close>

theorem attributes_frame:
  "fst (snd (exec e k (c, w))) =
     (case k of Label l \<Rightarrow> c\<lparr>labels := labels c @ [l]\<rparr> | SetLog g \<Rightarrow> c\<lparr>u_log := g\<rparr> | _ \<Rightarrow> c)
   \<and> directory (fst (snd (run e ks (c, w)))) = directory c
   \<and> terminal (fst (snd (run e ks (c, w)))) = terminal c
   \<and> path (fst (snd (run e ks (c, w)))) = path c"
  using exec_frame [of e k c w] run_frame [of e ks c w] by simp

text \<open>
  Claim C10. With no arguments, \<^verbatim>\<open>warning()\<close> and \<^verbatim>\<open>error()\<close> print the coloured level
  prefix and nothing else, and append the record \<^verbatim>\<open>WARNING:\<close> or \<^verbatim>\<open>ERROR:\<close> followed by a
  newline, with no space after the colon.
\<close>

theorem warning_error_without_args:
  assumes "path c = Some sp" and "path_exists e (full_path sp)"
  shows "warning e c [] w =
           (Inr (), w\<lparr>stdout := stdout w @ esc @ ''[1;35mWARNING: '' @ esc @ ''[0m'',
                       files := (files w)(full_path sp \<mapsto> content w (full_path sp) @ ''WARNING:'' @ newline)\<rparr>)
       \<and> error e c [] w =
           (Inr (), w\<lparr>stdout := stdout w @ esc @ ''[1;31mERROR: '' @ esc @ ''[0m'',
                       files := (files w)(full_path sp \<mapsto> content w (full_path sp) @ ''ERROR:'' @ newline)\<rparr>)"
  using assms
  by (simp add: warning_def error_def u_write_ok print_def append_file_def content_def)

text \<open>The two calls at the example object, from the empty world.\<close>

theorem warning_error_without_args_witness:
  "path console0 = Some ''./log/1700000000000.log''
   \<and> path_exists env_ok (full_path ''./log/1700000000000.log'')
   \<and> stdout (snd (warning env_ok console0 [] world0)) = esc @ ''[1;35mWARNING: '' @ esc @ ''[0m''
   \<and> files (snd (warning env_ok console0 [] world0)) ''./log/./log/1700000000000.log''
        = Some (''WARNING:'' @ newline)
   \<and> stdout (snd (error env_ok console0 [] world0)) = esc @ ''[1;31mERROR: '' @ esc @ ''[0m''
   \<and> files (snd (error env_ok console0 [] world0)) ''./log/./log/1700000000000.log''
        = Some (''ERROR:'' @ newline)"
  using warning_error_without_args [OF console0_path env_ok_path, of world0]
        console0_path env_ok_path
  by (simp add: world0_def content_def full_path_example)

end
